theory Spec2Isabelle
  imports Main "HOL-Library.Product_Lexorder" "HOL-Library.Multiset"
begin

section \<open>Numbers\<close>

text \<open>
  The counters of this program are JavaScript numbers that hold integers. A number here
  is an integer or one of the two infinities (a JSON literal beyond the range of a double,
  such as \<open>1e400\<close>, parses to \<open>Infinity\<close>); a JSON number with a fraction is outside the
  model. The order is that of \<open><\<close>, \<open>>\<close>, \<open>>=\<close> and \<open>===\<close> on such numbers.
\<close>

datatype number = NegInf | Fin int | PosInf

fun level :: "number \<Rightarrow> int \<times> int" where
  "level NegInf = (- 1, 0)"
| "level (Fin n) = (0, n)"
| "level PosInf = (1, 0)"

instantiation number :: linorder
begin

definition less_eq_number :: "number \<Rightarrow> number \<Rightarrow> bool" where
  "less_eq_number a b \<longleftrightarrow> level a \<le> level b"

definition less_number :: "number \<Rightarrow> number \<Rightarrow> bool" where
  "less_number a b \<longleftrightarrow> level a < level b"

instance
proof
  fix x y z :: number
  show "x < y \<longleftrightarrow> x \<le> y \<and> \<not> y \<le> x"
    by (auto simp add: less_eq_number_def less_number_def)
  show "x \<le> x"
    by (simp add: less_eq_number_def)
  show "x \<le> y \<Longrightarrow> y \<le> z \<Longrightarrow> x \<le> z"
    by (simp add: less_eq_number_def)
  show "x \<le> y \<Longrightarrow> y \<le> x \<Longrightarrow> x = y"
    by (cases x; cases y) (simp_all add: less_eq_number_def)
  show "x \<le> y \<or> y \<le> x"
    by (auto simp add: less_eq_number_def)
qed

end

text \<open>
  Arithmetic rounds its exact result to the nearest double, ties to the even significand.
  Every integer up to \<open>2^53\<close> in magnitude is a double; above, a double is a multiple of
  the power of two that leaves 53 bits, and a result of magnitude \<open>2^1024\<close> or more is an
  infinity.
\<close>

fun bit_length :: "nat \<Rightarrow> nat" where
  "bit_length n = (if n = 0 then 0 else Suc (bit_length (n div 2)))"

declare bit_length.simps [simp del]

definition round_double :: "int \<Rightarrow> number" where
  "round_double n =
     (if \<bar>n\<bar> \<le> 2 ^ 53 then Fin n
      else
        (let q = 2 ^ (bit_length (nat \<bar>n\<bar>) - 53);
             m = \<bar>n\<bar> div q;
             r = \<bar>n\<bar> mod q;
             m' = (if 2 * r > q \<or> (2 * r = q \<and> odd m) then m + 1 else m);
             v = m' * q
         in if v \<ge> 2 ^ 1024 then (if n > 0 then PosInf else NegInf)
            else Fin (sgn n * v)))"

text \<open>\<open>x + 1\<close>, as \<open>x++\<close> and \<open>x += 1\<close> compute it.\<close>

fun js_inc :: "number \<Rightarrow> number" where
  "js_inc (Fin n) = round_double (n + 1)"
| "js_inc PosInf = PosInf"
| "js_inc NegInf = NegInf"

text \<open>\<open>x - y\<close>; \<open>None\<close> is \<open>NaN\<close>, the difference of two equal infinities.\<close>

fun js_sub :: "number \<Rightarrow> number \<Rightarrow> number option" where
  "js_sub (Fin a) (Fin b) = Some (round_double (a - b))"
| "js_sub PosInf PosInf = None"
| "js_sub NegInf NegInf = None"
| "js_sub PosInf y = Some PosInf"
| "js_sub NegInf y = Some NegInf"
| "js_sub (Fin a) PosInf = Some NegInf"
| "js_sub (Fin a) NegInf = Some PosInf"

section \<open>Stored values\<close>

text \<open>
  Both managers keep their state as JSON text under one storage key. A stored text is
  modelled by the value \<open>JSON.parse\<close> reads from it. An object is the list of its
  properties; \<open>JSON.parse\<close> keeps one value per key.
\<close>

datatype json =
    JNull
  | JBool bool
  | JNum number
  | JStr string
  | JArr "json list"
  | JObj "(string \<times> json) list"

text \<open>
  What \<open>JSON.parse\<close> reads back from \<open>JSON.stringify(v)\<close>: the value itself, but for an
  infinite number, which is written as \<open>null\<close>.
\<close>

primrec stringified :: "json \<Rightarrow> json" where
  "stringified JNull = JNull"
| "stringified (JBool b) = JBool b"
| "stringified (JNum n) = (case n of Fin k \<Rightarrow> JNum (Fin k) | _ \<Rightarrow> JNull)"
| "stringified (JStr s) = JStr s"
| "stringified (JArr xs) = JArr (map stringified xs)"
| "stringified (JObj kvs) = JObj (map (map_prod id stringified) kvs)"

text \<open>
  Reading the properties of a parsed value: \<open>null.k\<close> throws a TypeError (\<open>None\<close>
  here); an object gives the value under the key, or \<open>undefined\<close> (the inner \<open>None\<close>);
  a number, a boolean, a string or an array has none of the field names this program
  reads, so every read of them is \<open>undefined\<close>.
\<close>

fun props :: "json \<Rightarrow> (string \<Rightarrow> json option) option" where
  "props JNull = None"
| "props (JObj kvs) = Some (map_of kvs)"
| "props _ = Some (\<lambda>k. None)"

text \<open>The \<open>typeof\<close> operator, on the result of a property read.\<close>

fun typeof :: "json option \<Rightarrow> string" where
  "typeof None = ''undefined''"
| "typeof (Some JNull) = ''object''"
| "typeof (Some (JBool b)) = ''boolean''"
| "typeof (Some (JNum n)) = ''number''"
| "typeof (Some (JStr s)) = ''string''"
| "typeof (Some (JArr xs)) = ''object''"
| "typeof (Some (JObj kvs)) = ''object''"

text \<open>
  The defaulting reads of \<open>getStreakData\<close>: \<open>v || 0\<close>, \<open>v || ''\<close> and \<open>v || false\<close>.
  A falsy value (\<open>undefined\<close>, \<open>null\<close>, \<open>false\<close>, \<open>0\<close>, the empty string) gives the
  default. The interface \<open>StreakData\<close> types the counters as numbers and the date as a
  string: a number (a string) is read as it is. A truthy value of another kind, which the
  code would carry on as it is, is read as the default: the model is exact on the stores
  that \<open>kinds_ok\<close> below describes. The flag is read by its truthiness, which is all the
  program ever tests.
\<close>

fun or_zero :: "json option \<Rightarrow> number" where
  "or_zero (Some (JNum n)) = n"
| "or_zero _ = Fin 0"

fun or_empty :: "json option \<Rightarrow> string" where
  "or_empty (Some (JStr s)) = s"
| "or_empty _ = ''''"

fun or_false :: "json option \<Rightarrow> bool" where
  "or_false None = False"
| "or_false (Some JNull) = False"
| "or_false (Some (JBool b)) = b"
| "or_false (Some (JNum n)) = (n \<noteq> Fin 0)"
| "or_false (Some (JStr s)) = (s \<noteq> '''')"
| "or_false (Some (JArr xs)) = True"
| "or_false (Some (JObj kvs)) = True"

section \<open>Data model\<close>

record LeaderboardEntry =
  playerName :: string
  totalPoints :: number
  longestStreak :: number
  totalQuizzesPassed :: number
  lastActive :: string
  rank :: int

record StreakData =
  currentStreak :: number
  longestStreak :: number
  lastQuizDate :: string
  totalQuizzesPassed :: number
  totalQuizzesTaken :: number
  totalPoints :: number
  consecutiveCorrectAnswers :: number
  isInStreak :: bool

text \<open>
  The streak store is the item under \<open>studyez_streak_data\<close>: \<open>None\<close> when the key is
  absent, empty or not JSON, else the parsed value.
\<close>

type_synonym streak_store = "json option"

text \<open>
  The two copies of the manager differ in the medium only: one writes the item to
  \<open>localStorage\<close>, which keeps the text it is given; the other assigns it, unencoded, to
  \<open>document.cookie\<close>. A browser stores a cookie whole, or rejects it and keeps the old
  one (a text too long), or stores something else that no longer parses (the text cut at
  its first \<open>;\<close>), or nothing; which of these, for a given value, is the browser's choice
  and a parameter here.
\<close>

datatype medium =
    LocalStorage
  | Cookie (whole: "json \<Rightarrow> bool") (rejected: "json \<Rightarrow> bool")

fun setItem :: "medium \<Rightarrow> json \<Rightarrow> streak_store \<Rightarrow> streak_store" where
  "setItem LocalStorage v store = Some v"
| "setItem (Cookie stored_whole kept_old) v store =
     (if stored_whole v then Some v else if kept_old v then store else None)"

section \<open>StreakManager\<close>

definition defaultData :: StreakData where
  "defaultData =
     \<lparr>currentStreak = Fin 0, longestStreak = Fin 0, lastQuizDate = '''',
      totalQuizzesPassed = Fin 0, totalQuizzesTaken = Fin 0, totalPoints = Fin 0,
      consecutiveCorrectAnswers = Fin 0, isInStreak = False\<rparr>"

definition getStreakData :: "streak_store \<Rightarrow> StreakData" where
  "getStreakData store =
     (case store of
        None \<Rightarrow> defaultData
      | Some parsed \<Rightarrow>
          (case props parsed of
             None \<Rightarrow> defaultData
           | Some p \<Rightarrow>
               \<lparr>currentStreak = or_zero (p ''currentStreak''),
                longestStreak = or_zero (p ''longestStreak''),
                lastQuizDate = or_empty (p ''lastQuizDate''),
                totalQuizzesPassed = or_zero (p ''totalQuizzesPassed''),
                totalQuizzesTaken = or_zero (p ''totalQuizzesTaken''),
                totalPoints = or_zero (p ''totalPoints''),
                consecutiveCorrectAnswers = or_zero (p ''consecutiveCorrectAnswers''),
                isInStreak = or_false (p ''isInStreak'')\<rparr>))"

text \<open>
  \<open>saveStreakData\<close> of a record of the program's own: the store now holds
  \<open>JSON.stringify(data)\<close>. Such a text (numbers, a boolean and the date string) passes
  through either medium whole. A write that the browser refuses altogether is logged and
  lost; the model is of a store that takes these writes.
\<close>

definition saveStreakData :: "StreakData \<Rightarrow> streak_store" where
  "saveStreakData data =
     Some (stringified (JObj
       [(''currentStreak'', JNum (currentStreak data)),
        (''longestStreak'', JNum (longestStreak data)),
        (''lastQuizDate'', JStr (lastQuizDate data)),
        (''totalQuizzesPassed'', JNum (totalQuizzesPassed data)),
        (''totalQuizzesTaken'', JNum (totalQuizzesTaken data)),
        (''totalPoints'', JNum (totalPoints data)),
        (''consecutiveCorrectAnswers'', JNum (consecutiveCorrectAnswers data)),
        (''isInStreak'', JBool (isInStreak data))]))"

text \<open>
  The body of \<open>updateStreakForAnswer\<close> between the read and the write: the record
  \<open>currentData\<close> after the branch, and \<open>pointsEarned\<close>.
\<close>

definition answered :: "bool \<Rightarrow> StreakData \<Rightarrow> StreakData \<times> int" where
  "answered isCorrect currentData =
     (if isCorrect then
        (let d1 = currentData\<lparr>consecutiveCorrectAnswers :=
                     js_inc (consecutiveCorrectAnswers currentData)\<rparr>;
             d2 = (if consecutiveCorrectAnswers d1 \<ge> Fin 3 \<and> \<not> isInStreak d1
                   then d1\<lparr>isInStreak := True,
                            currentStreak := consecutiveCorrectAnswers d1\<rparr>
                   else d1)
         in if isInStreak d2 then
              (let d3 = d2\<lparr>currentStreak := consecutiveCorrectAnswers d2\<rparr>;
                   d4 = d3\<lparr>totalPoints := js_inc (totalPoints d3)\<rparr>;
                   d5 = (if currentStreak d4 > longestStreak d4
                         then d4\<lparr>longestStreak := currentStreak d4\<rparr>
                         else d4)
               in (d5, 1))
            else (d2, 0))
      else
        (currentData\<lparr>consecutiveCorrectAnswers := Fin 0, currentStreak := Fin 0,
                       isInStreak := False\<rparr>, 0))"

definition updateStreakForAnswer ::
  "bool \<Rightarrow> streak_store \<Rightarrow> (StreakData \<times> int) \<times> streak_store" where
  "updateStreakForAnswer isCorrect store =
     (let (data, pointsEarned) = answered isCorrect (getStreakData store)
      in ((data, pointsEarned), saveStreakData data))"

text \<open>A run of calls, one per answer: the points each call returned, and the store.\<close>

fun updateStreakForAnswers :: "bool list \<Rightarrow> streak_store \<Rightarrow> int list \<times> streak_store" where
  "updateStreakForAnswers [] store = ([], store)"
| "updateStreakForAnswers (isCorrect # rest) store =
     (let ((data, pointsEarned), store') = updateStreakForAnswer isCorrect store;
          (points, store'') = updateStreakForAnswers rest store'
      in (pointsEarned # points, store''))"

text \<open>\<open>updateQuizStats\<close>; \<open>today\<close> is \<open>new Date().toDateString()\<close>.\<close>

definition updateQuizStats :: "string \<Rightarrow> bool \<Rightarrow> streak_store \<Rightarrow> StreakData \<times> streak_store" where
  "updateQuizStats today passed store =
     (let currentData = getStreakData store;
          d1 = currentData\<lparr>totalQuizzesTaken := js_inc (totalQuizzesTaken currentData)\<rparr>;
          d2 = (if passed then d1\<lparr>totalQuizzesPassed := js_inc (totalQuizzesPassed d1)\<rparr>
                else d1);
          d3 = d2\<lparr>lastQuizDate := today\<rparr>
      in (d3, saveStreakData d3))"

definition resetStreak :: "streak_store \<Rightarrow> StreakData \<times> streak_store" where
  "resetStreak store =
     (let resetData =
        \<lparr>currentStreak = Fin 0, longestStreak = Fin 0, lastQuizDate = '''',
         totalQuizzesPassed = Fin 0, totalQuizzesTaken = Fin 0, totalPoints = Fin 0,
         consecutiveCorrectAnswers = Fin 0, isInStreak = False\<rparr>
      in (resetData, saveStreakData resetData))"

text \<open>
  \<open>checkStreakExpiry\<close>. \<open>getTime\<close> is \<open>new Date(s).getTime()\<close>, in milliseconds, \<open>None\<close>
  for an invalid date (\<open>NaN\<close>, which no comparison accepts); \<open>today\<close> is
  \<open>new Date().getTime()\<close>. \<open>Math.floor\<close> of the quotient is \<open>div\<close> on the integers.
\<close>

definition checkStreakExpiry ::
  "(string \<Rightarrow> int option) \<Rightarrow> int \<Rightarrow> int \<Rightarrow> streak_store \<Rightarrow> bool \<times> streak_store" where
  "checkStreakExpiry getTime today maxDaysInactive store =
     (let streakData = getStreakData store in
      if lastQuizDate streakData = '''' \<or> currentStreak streakData = Fin 0 then (False, store)
      else
        (case getTime (lastQuizDate streakData) of
           None \<Rightarrow> (False, store)
         | Some lastQuiz \<Rightarrow>
             (let daysDifference = (today - lastQuiz) div (1000 * 60 * 60 * 24) in
              if daysDifference > maxDaysInactive
              then (True, saveStreakData (streakData\<lparr>currentStreak := Fin 0\<rparr>))
              else (False, store))))"

text \<open>
  \<open>importStreakData\<close>. \<open>parse\<close> is \<open>JSON.parse\<close>, \<open>None\<close> when it throws. Every
  exception (the parser's, the TypeError of reading a property of \<open>null\<close>, the
  \<open>Invalid data structure\<close> error) ends in the \<open>catch\<close>, which returns \<open>false\<close>.
  On success \<open>saveStreakData\<close> is given the parsed value itself, not a \<open>StreakData\<close>
  built from it: the medium is handed \<open>JSON.stringify\<close> of a value of any shape.
\<close>

definition importStreakData ::
  "medium \<Rightarrow> (string \<Rightarrow> json option) \<Rightarrow> string \<Rightarrow> streak_store \<Rightarrow> bool \<times> streak_store" where
  "importStreakData medium parse jsonData store =
     (case parse jsonData of
        None \<Rightarrow> (False, store)
      | Some data \<Rightarrow>
          (case props data of
             None \<Rightarrow> (False, store)
           | Some p \<Rightarrow>
               if typeof (p ''currentStreak'') = ''number'' \<and>
                  typeof (p ''longestStreak'') = ''number'' \<and>
                  typeof (p ''lastQuizDate'') = ''string'' \<and>
                  typeof (p ''totalQuizzesPassed'') = ''number'' \<and>
                  typeof (p ''totalQuizzesTaken'') = ''number''
               then (True, setItem medium (stringified data) store)
               else (False, store)))"

section \<open>LeaderboardManager\<close>

text \<open>
  The array methods the manager calls, on lists. \<open>Array.prototype.sort\<close> reads a
  comparator result of \<open>NaN\<close> as 0; it is stable, and for a comparator that is a
  consistent order the result is determined: the elements in comparator order, equal ones
  in their order before the call. Insertion from the right computes it.
  \<open>Array.prototype.slice\<close> counts a negative bound from the end of the array.
\<close>

definition sort_compare :: "('a \<Rightarrow> 'a \<Rightarrow> number option) \<Rightarrow> 'a \<Rightarrow> 'a \<Rightarrow> number" where
  "sort_compare cmp x y = (case cmp x y of None \<Rightarrow> Fin 0 | Some v \<Rightarrow> v)"

fun insert_sorted :: "('a \<Rightarrow> 'a \<Rightarrow> number option) \<Rightarrow> 'a \<Rightarrow> 'a list \<Rightarrow> 'a list" where
  "insert_sorted cmp x [] = [x]"
| "insert_sorted cmp x (y # ys) =
     (if sort_compare cmp x y \<le> Fin 0 then x # y # ys else y # insert_sorted cmp x ys)"

definition array_sort :: "('a \<Rightarrow> 'a \<Rightarrow> number option) \<Rightarrow> 'a list \<Rightarrow> 'a list" where
  "array_sort cmp xs = foldr (insert_sorted cmp) xs []"

definition array_slice :: "int \<Rightarrow> int \<Rightarrow> 'a list \<Rightarrow> 'a list" where
  "array_slice start stop xs =
     (let len = int (length xs);
          k = (if start < 0 then max (len + start) 0 else min start len);
          final = (if stop < 0 then max (len + stop) 0 else min stop len)
      in take (nat (final - k)) (drop (nat k) xs))"

text \<open>
  \<open>playerEntry.f = v\<close> on the entry that \<open>find\<close> returned: the first match changes in
  place, in the array.
\<close>

fun update_found :: "('a \<Rightarrow> bool) \<Rightarrow> ('a \<Rightarrow> 'a) \<Rightarrow> 'a list \<Rightarrow> 'a list" where
  "update_found P f [] = []"
| "update_found P f (x # xs) = (if P x then f x # xs else x # update_found P f xs)"

text \<open>\<open>getPlayerName\<close>, from the item under \<open>studyez_player_name\<close>: \<open>name || 'Anonymous Player'\<close>.\<close>

definition getPlayerName :: "string option \<Rightarrow> string" where
  "getPlayerName stored =
     (case stored of
        None \<Rightarrow> ''Anonymous Player''
      | Some name \<Rightarrow> if name = '''' then ''Anonymous Player'' else name)"

text \<open>The comparator of \<open>updateLeaderboard\<close>.\<close>

definition compareEntries :: "LeaderboardEntry \<Rightarrow> LeaderboardEntry \<Rightarrow> number option" where
  "compareEntries a b =
     (if LeaderboardEntry.totalPoints b = LeaderboardEntry.totalPoints a then
        (if LeaderboardEntry.longestStreak b = LeaderboardEntry.longestStreak a then
           js_sub (LeaderboardEntry.totalQuizzesPassed b) (LeaderboardEntry.totalQuizzesPassed a)
         else js_sub (LeaderboardEntry.longestStreak b) (LeaderboardEntry.longestStreak a))
      else js_sub (LeaderboardEntry.totalPoints b) (LeaderboardEntry.totalPoints a))"

text \<open>
  The first step of \<open>updateLeaderboard\<close>: the roster with the player's entry updated, or
  pushed at the end with rank 0. \<open>now\<close> is \<open>new Date().toISOString()\<close>.
\<close>

definition upserted ::
  "string \<Rightarrow> string \<Rightarrow> StreakData \<Rightarrow> LeaderboardEntry list \<Rightarrow> LeaderboardEntry list" where
  "upserted name now streakData leaderboard =
     (case find (\<lambda>entry. playerName entry = name) leaderboard of
        Some playerEntry \<Rightarrow>
          update_found (\<lambda>entry. playerName entry = name)
            (\<lambda>entry. entry\<lparr>LeaderboardEntry.totalPoints := totalPoints streakData,
                          LeaderboardEntry.longestStreak := longestStreak streakData,
                          LeaderboardEntry.totalQuizzesPassed := totalQuizzesPassed streakData,
                          lastActive := now\<rparr>)
            leaderboard
      | None \<Rightarrow>
          leaderboard @
            [\<lparr>playerName = name,
              LeaderboardEntry.totalPoints = totalPoints streakData,
              LeaderboardEntry.longestStreak = longestStreak streakData,
              LeaderboardEntry.totalQuizzesPassed = totalQuizzesPassed streakData,
              lastActive = now, rank = 0\<rparr>])"

text \<open>The \<open>forEach\<close> that writes the ranks.\<close>

definition ranked :: "LeaderboardEntry list \<Rightarrow> LeaderboardEntry list" where
  "ranked leaderboard =
     map (\<lambda>(index, entry). entry\<lparr>rank := int index + 1\<rparr>) (enumerate 0 leaderboard)"

text \<open>
  \<open>updateLeaderboard\<close>, from the stored player name and the stored roster to the roster
  it saves.
\<close>

definition updateLeaderboard ::
  "string option \<Rightarrow> string \<Rightarrow> StreakData \<Rightarrow> LeaderboardEntry list \<Rightarrow> LeaderboardEntry list" where
  "updateLeaderboard stored now streakData leaderboard =
     (let name = getPlayerName stored;
          sorted_entries = array_sort compareEntries (upserted name now streakData leaderboard);
          topEntries = array_slice 0 100 (ranked sorted_entries)
      in topEntries)"

definition getPlayersAroundRank ::
  "int \<Rightarrow> int \<Rightarrow> LeaderboardEntry list \<Rightarrow> LeaderboardEntry list" where
  "getPlayersAroundRank playerRank range' leaderboard =
     (let startIndex = max 0 (playerRank - range' - 1);
          endIndex = min (int (length leaderboard)) (playerRank + range')
      in array_slice startIndex endIndex leaderboard)"

text \<open>\<open>addSampleData\<close>: the roster it saves.\<close>

definition addSampleData :: "string \<Rightarrow> LeaderboardEntry list" where
  "addSampleData now =
     [\<lparr>playerName = ''Quiz Master'', LeaderboardEntry.totalPoints = Fin 150,
       LeaderboardEntry.longestStreak = Fin 25, LeaderboardEntry.totalQuizzesPassed = Fin 20,
       lastActive = now, rank = 1\<rparr>,
      \<lparr>playerName = ''Study Pro'', LeaderboardEntry.totalPoints = Fin 128,
       LeaderboardEntry.longestStreak = Fin 18, LeaderboardEntry.totalQuizzesPassed = Fin 16,
       lastActive = now, rank = 2\<rparr>,
      \<lparr>playerName = ''Brain Trainer'', LeaderboardEntry.totalPoints = Fin 95,
       LeaderboardEntry.longestStreak = Fin 15, LeaderboardEntry.totalQuizzesPassed = Fin 12,
       lastActive = now, rank = 3\<rparr>,
      \<lparr>playerName = ''Knowledge Seeker'', LeaderboardEntry.totalPoints = Fin 87,
       LeaderboardEntry.longestStreak = Fin 12, LeaderboardEntry.totalQuizzesPassed = Fin 11,
       lastActive = now, rank = 4\<rparr>,
      \<lparr>playerName = ''Learner123'', LeaderboardEntry.totalPoints = Fin 76,
       LeaderboardEntry.longestStreak = Fin 10, LeaderboardEntry.totalQuizzesPassed = Fin 9,
       lastActive = now, rank = 5\<rparr>,
      \<lparr>playerName = ''Code Ninja'', LeaderboardEntry.totalPoints = Fin 65,
       LeaderboardEntry.longestStreak = Fin 8, LeaderboardEntry.totalQuizzesPassed = Fin 8,
       lastActive = now, rank = 6\<rparr>,
      \<lparr>playerName = ''Tech Student'', LeaderboardEntry.totalPoints = Fin 54,
       LeaderboardEntry.longestStreak = Fin 7, LeaderboardEntry.totalQuizzesPassed = Fin 7,
       lastActive = now, rank = 7\<rparr>,
      \<lparr>playerName = ''Rookie Dev'', LeaderboardEntry.totalPoints = Fin 43,
       LeaderboardEntry.longestStreak = Fin 6, LeaderboardEntry.totalQuizzesPassed = Fin 6,
       lastActive = now, rank = 8\<rparr>,
      \<lparr>playerName = ''Future Coder'', LeaderboardEntry.totalPoints = Fin 32,
       LeaderboardEntry.longestStreak = Fin 5, LeaderboardEntry.totalQuizzesPassed = Fin 5,
       lastActive = now, rank = 9\<rparr>,
      \<lparr>playerName = ''Beginner'', LeaderboardEntry.totalPoints = Fin 21,
       LeaderboardEntry.longestStreak = Fin 4, LeaderboardEntry.totalQuizzesPassed = Fin 4,
       lastActive = now, rank = 10\<rparr>]"

section \<open>Notions of the specification\<close>

text \<open>The invariant the specification gives for a streak state.\<close>

definition streak_invariant :: "StreakData \<Rightarrow> bool" where
  "streak_invariant s \<longleftrightarrow>
     (currentStreak s > Fin 0 \<longrightarrow> isInStreak s) \<and>
     (isInStreak s \<longrightarrow> currentStreak s = consecutiveCorrectAnswers s)"




text \<open>
  A record as a later read finds it after \<open>saveStreakData\<close>: an infinite counter was
  written as \<open>null\<close> and reads as 0.
\<close>

fun finite_or_zero :: "number \<Rightarrow> number" where
  "finite_or_zero (Fin n) = Fin n"
| "finite_or_zero PosInf = Fin 0"
| "finite_or_zero NegInf = Fin 0"

definition as_stored :: "StreakData \<Rightarrow> StreakData" where
  "as_stored d =
     \<lparr>currentStreak = finite_or_zero (currentStreak d),
      longestStreak = finite_or_zero (longestStreak d),
      lastQuizDate = lastQuizDate d,
      totalQuizzesPassed = finite_or_zero (totalQuizzesPassed d),
      totalQuizzesTaken = finite_or_zero (totalQuizzesTaken d),
      totalPoints = finite_or_zero (totalPoints d),
      consecutiveCorrectAnswers = finite_or_zero (consecutiveCorrectAnswers d),
      isInStreak = isInStreak d\<rparr>"

text \<open>
  The order of the roster: \<open>key_ge a b\<close> when the sort key of \<open>a\<close> (points, then longest
  streak, then quizzes passed) is greater than or equal to that of \<open>b\<close>.
\<close>

definition key_ge :: "LeaderboardEntry \<Rightarrow> LeaderboardEntry \<Rightarrow> bool" where
  "key_ge a b \<longleftrightarrow>
     LeaderboardEntry.totalPoints a > LeaderboardEntry.totalPoints b \<or>
     (LeaderboardEntry.totalPoints a = LeaderboardEntry.totalPoints b \<and>
      (LeaderboardEntry.longestStreak a > LeaderboardEntry.longestStreak b \<or>
       (LeaderboardEntry.longestStreak a = LeaderboardEntry.longestStreak b \<and>
        LeaderboardEntry.totalQuizzesPassed a \<ge> LeaderboardEntry.totalQuizzesPassed b)))"

definition entry_key :: "LeaderboardEntry \<Rightarrow> number \<times> number \<times> number" where
  "entry_key e =
     (LeaderboardEntry.totalPoints e, LeaderboardEntry.longestStreak e,
      LeaderboardEntry.totalQuizzesPassed e)"

text \<open>
  The key under which ascending order is the order of the roster.
\<close>

fun negated :: "number \<Rightarrow> number" where
  "negated (Fin n) = Fin (- n)"
| "negated PosInf = NegInf"
| "negated NegInf = PosInf"

definition descending_key :: "LeaderboardEntry \<Rightarrow> number \<times> number \<times> number" where
  "descending_key e =
     (negated (LeaderboardEntry.totalPoints e), negated (LeaderboardEntry.longestStreak e),
      negated (LeaderboardEntry.totalQuizzesPassed e))"

text \<open>An entry without its rank: what stays of it when the roster is ranked again.\<close>

definition unranked :: "LeaderboardEntry \<Rightarrow> LeaderboardEntry" where
  "unranked e = e\<lparr>rank := 0\<rparr>"

text \<open>
  The entries of a list at the indices \<open>i\<close> with \<open>a \<le> i < b\<close>, in order: the half-open
  window of the specification.
\<close>

definition index_window :: "int \<Rightarrow> int \<Rightarrow> 'a list \<Rightarrow> 'a list" where
  "index_window a b xs = map (\<lambda>i. xs ! nat i) [a..b - 1]"

text \<open>The five required fields of an import, with the kinds the specification names.\<close>

fun number_field :: "json \<Rightarrow> string \<Rightarrow> bool" where
  "number_field (JObj kvs) k = (case map_of kvs k of Some (JNum n) \<Rightarrow> True | _ \<Rightarrow> False)"
| "number_field _ k = False"

fun string_field :: "json \<Rightarrow> string \<Rightarrow> bool" where
  "string_field (JObj kvs) k = (case map_of kvs k of Some (JStr s) \<Rightarrow> True | _ \<Rightarrow> False)"
| "string_field _ k = False"

definition valid_import :: "json \<Rightarrow> bool" where
  "valid_import data \<longleftrightarrow>
     number_field data ''currentStreak'' \<and> number_field data ''longestStreak'' \<and>
     number_field data ''totalQuizzesPassed'' \<and> number_field data ''totalQuizzesTaken'' \<and>
     string_field data ''lastQuizDate''"



text \<open>
  The whole days from the last quiz date to now, when there is a last quiz date and it is
  a date.
\<close>

definition days_since :: "(string \<Rightarrow> int option) \<Rightarrow> int \<Rightarrow> string \<Rightarrow> int option" where
  "days_since getTime today date =
     (if date = [] then None
      else map_option (\<lambda>t. (today - t) div 86400000) (getTime date))"

definition inactive_longer :: "(string \<Rightarrow> int option) \<Rightarrow> int \<Rightarrow> int \<Rightarrow> string \<Rightarrow> bool" where
  "inactive_longer getTime today maxDaysInactive date =
     (case days_since getTime today date of None \<Rightarrow> False | Some d \<Rightarrow> d > maxDaysInactive)"

section \<open>Properties of the numbers\<close>

lemma Fin_le: "Fin a \<le> Fin b \<longleftrightarrow> a \<le> b"
  by (simp add: less_eq_number_def)

lemma Fin_less: "Fin a < Fin b \<longleftrightarrow> a < b"
  by (simp add: less_number_def)

lemma infinite_order:
  "NegInf \<le> x" "x \<le> PosInf" "\<not> x < NegInf" "\<not> PosInf < x"
  "Fin a < PosInf" "NegInf < Fin a" "NegInf < PosInf"
  "\<not> PosInf \<le> Fin a" "\<not> Fin a \<le> NegInf" "\<not> PosInf \<le> NegInf"
  by (cases x; simp add: less_eq_number_def less_number_def)+

lemmas number_order = Fin_le Fin_less infinite_order

lemma round_double_exact: "\<bar>n\<bar> \<le> 2 ^ 53 \<Longrightarrow> round_double n = Fin n"
  by (simp add: round_double_def)


lemma finite_or_zero_positive: "Fin 0 < finite_or_zero x \<Longrightarrow> Fin 0 < x"
  by (cases x) (simp_all add: number_order)

section \<open>Properties of the streak engine\<close>

lemma or_zero_stringified: "or_zero (Some (stringified (JNum n))) = finite_or_zero n"
  by (cases n) simp_all

lemma getStreakData_saveStreakData: "getStreakData (saveStreakData d) = as_stored d"
  by (simp add: getStreakData_def saveStreakData_def as_stored_def
      or_zero_stringified [simplified])

lemma getStreakData_None: "getStreakData None = defaultData"
  by (simp add: getStreakData_def)

lemma as_stored_finite:
  "as_stored \<lparr>currentStreak = Fin a, longestStreak = Fin b, lastQuizDate = s,
      totalQuizzesPassed = Fin c, totalQuizzesTaken = Fin d, totalPoints = Fin e,
      consecutiveCorrectAnswers = Fin f, isInStreak = g\<rparr> =
   \<lparr>currentStreak = Fin a, longestStreak = Fin b, lastQuizDate = s,
      totalQuizzesPassed = Fin c, totalQuizzesTaken = Fin d, totalPoints = Fin e,
      consecutiveCorrectAnswers = Fin f, isInStreak = g\<rparr>"
  by (simp add: as_stored_def)

lemma updateStreakForAnswer_eq:
  "updateStreakForAnswer b store =
     (answered b (getStreakData store), saveStreakData (fst (answered b (getStreakData store))))"
  by (simp add: updateStreakForAnswer_def split: prod.splits)






lemma sum_list_points_length:
  "list_all (\<lambda>p. p = 0 \<or> p = 1) ps \<Longrightarrow> sum_list (ps :: int list) \<le> int (length ps)"
  by (induction ps) auto

text \<open>
  C1. From the all-zero default state (an empty store), the answers correct, correct,
  correct, correct, wrong give: after the third call \<open>isInStreak\<close>, \<open>currentStreak = 3\<close>
  and \<open>totalPoints = 1\<close>; after the fourth \<open>currentStreak = 4\<close> and \<open>totalPoints = 2\<close>;
  after the fifth \<open>currentStreak = 0\<close>, no streak, and \<open>totalPoints = 2\<close> still. After
  one or two correct answers only, there is no streak yet.
\<close>

theorem streak_scenario:
  "getStreakData None = defaultData \<and>
   \<not> isInStreak (getStreakData (snd (updateStreakForAnswers [True] None))) \<and>
   \<not> isInStreak (getStreakData (snd (updateStreakForAnswers [True, True] None))) \<and>
   getStreakData (snd (updateStreakForAnswers [True, True, True] None)) =
     defaultData\<lparr>isInStreak := True, currentStreak := Fin 3, totalPoints := Fin 1,
                  consecutiveCorrectAnswers := Fin 3, longestStreak := Fin 3\<rparr> \<and>
   getStreakData (snd (updateStreakForAnswers [True, True, True, True] None)) =
     defaultData\<lparr>isInStreak := True, currentStreak := Fin 4, totalPoints := Fin 2,
                  consecutiveCorrectAnswers := Fin 4, longestStreak := Fin 4\<rparr> \<and>
   getStreakData (snd (updateStreakForAnswers [True, True, True, True, False] None)) =
     defaultData\<lparr>isInStreak := False, currentStreak := Fin 0, totalPoints := Fin 2,
                  consecutiveCorrectAnswers := Fin 0, longestStreak := Fin 4\<rparr> \<and>
   fst (updateStreakForAnswers [True, True, True, True, False] None) = [0, 0, 1, 1, 0]"
  by (simp add: updateStreakForAnswer_eq answered_def getStreakData_saveStreakData
      defaultData_def getStreakData_None Let_def round_double_exact number_order
      as_stored_finite split: prod.splits)

text \<open>
  C9. In every state that is not in a streak and in which a correct answer brings the
  count of consecutive correct answers to 3 or more (so also one where it is already 3 or
  more, as an imported record can have it), that answer starts the streak: \<open>isInStreak\<close>
  becomes true, \<open>currentStreak\<close> becomes the new count, and that same call awards 1
  point.
\<close>

theorem activation_on_threshold:
  assumes "\<not> isInStreak (getStreakData store)"
    and "js_inc (consecutiveCorrectAnswers (getStreakData store)) \<ge> Fin 3"
  shows "isInStreak (fst (fst (updateStreakForAnswer True store))) \<and>
     consecutiveCorrectAnswers (fst (fst (updateStreakForAnswer True store))) =
       js_inc (consecutiveCorrectAnswers (getStreakData store)) \<and>
     currentStreak (fst (fst (updateStreakForAnswer True store))) =
       js_inc (consecutiveCorrectAnswers (getStreakData store)) \<and>
     snd (fst (updateStreakForAnswer True store)) = 1 \<and>
     totalPoints (fst (fst (updateStreakForAnswer True store))) =
       js_inc (totalPoints (getStreakData store)) \<and>
     longestStreak (fst (fst (updateStreakForAnswer True store))) =
       max (longestStreak (getStreakData store))
         (js_inc (consecutiveCorrectAnswers (getStreakData store))) \<and>
     snd (updateStreakForAnswer True store) =
       saveStreakData (fst (fst (updateStreakForAnswer True store))) \<and>
     getStreakData (snd (updateStreakForAnswer True store)) =
       as_stored (fst (fst (updateStreakForAnswer True store)))"
  using assms
  by (auto simp add: updateStreakForAnswer_eq answered_def Let_def max_def
      getStreakData_saveStreakData)

theorem activation_on_threshold_witness:
  "\<not> isInStreak (getStreakData
     (Some (JObj [(''consecutiveCorrectAnswers'', JNum (Fin 5)), (''totalPoints'', JNum (Fin 7))]))) \<and>
   js_inc (consecutiveCorrectAnswers (getStreakData
     (Some (JObj [(''consecutiveCorrectAnswers'', JNum (Fin 5)), (''totalPoints'', JNum (Fin 7))]))))
     \<ge> Fin 3 \<and>
   fst (updateStreakForAnswer True
     (Some (JObj [(''consecutiveCorrectAnswers'', JNum (Fin 5)), (''totalPoints'', JNum (Fin 7))]))) =
   (\<lparr>currentStreak = Fin 6, longestStreak = Fin 6, lastQuizDate = [],
     totalQuizzesPassed = Fin 0, totalQuizzesTaken = Fin 0, totalPoints = Fin 8,
     consecutiveCorrectAnswers = Fin 6, isInStreak = True\<rparr>, 1)"
proof -
  let ?store = "Some (JObj [(''consecutiveCorrectAnswers'', JNum (Fin 5)),
    (''totalPoints'', JNum (Fin 7))])"
  have s: "getStreakData ?store =
      defaultData\<lparr>consecutiveCorrectAnswers := Fin 5, totalPoints := Fin 7\<rparr>"
    by (simp add: getStreakData_def defaultData_def)
  have pre: "\<not> isInStreak (getStreakData ?store)"
    "js_inc (consecutiveCorrectAnswers (getStreakData ?store)) \<ge> Fin 3"
    by (simp_all add: s defaultData_def round_double_exact number_order)
  have "fst (updateStreakForAnswer True ?store) =
   (\<lparr>currentStreak = Fin 6, longestStreak = Fin 6, lastQuizDate = [],
     totalQuizzesPassed = Fin 0, totalQuizzesTaken = Fin 0, totalPoints = Fin 8,
     consecutiveCorrectAnswers = Fin 6, isInStreak = True\<rparr>, 1)"
    using activation_on_threshold [OF pre] s
    by (simp add: updateStreakForAnswer_eq answered_def Let_def defaultData_def
        round_double_exact number_order)
  with pre show ?thesis
    by blast
qed


lemma answered_invariant:
  "streak_invariant s \<Longrightarrow> streak_invariant (fst (answered b s))"
  by (auto simp add: streak_invariant_def answered_def Let_def)

lemma as_stored_invariant: "streak_invariant d \<Longrightarrow> streak_invariant (as_stored d)"
  by (auto simp add: streak_invariant_def as_stored_def dest: finite_or_zero_positive)

lemma setItem_cases:
  "setItem medium v store = Some v \<or> setItem medium v store = store \<or>
   setItem medium v store = None"
  by (cases medium) simp_all

lemma importStreakData_eq:
  "importStreakData medium parse jsonData store =
     (case parse jsonData of
        None \<Rightarrow> (False, store)
      | Some data \<Rightarrow>
          if valid_import data then (True, setItem medium (stringified data) store)
          else (False, store))"
proof (cases "parse jsonData")
  case None
  then show ?thesis by (simp add: importStreakData_def)
next
  case (Some data)
  have num: "number_field data k \<longleftrightarrow>
      (case props data of None \<Rightarrow> False | Some p \<Rightarrow> typeof (p k) = ''number'')" for k
    by (cases data; simp split: option.splits json.splits)
  have str: "string_field data k \<longleftrightarrow>
      (case props data of None \<Rightarrow> False | Some p \<Rightarrow> typeof (p k) = ''string'')" for k
    by (cases data; simp split: option.splits json.splits)
  show ?thesis
    using Some
    by (auto simp add: importStreakData_def valid_import_def num str split: option.splits)
qed

text \<open>
  C3, as amended. \<open>updateStreakForAnswer\<close>, \<open>updateQuizStats\<close> and \<open>resetStreak\<close> preserve
  the invariant (a positive \<open>currentStreak\<close> only within a streak; within a streak
  \<open>currentStreak\<close> equal to the count of consecutive correct answers), and
  \<open>importStreakData\<close> preserves it when the record it is given, as it is written,
  satisfies it.
\<close>

theorem invariant_preserved:
  assumes "streak_invariant (getStreakData store)"
  shows "streak_invariant (getStreakData (snd (updateStreakForAnswer isCorrect store))) \<and>
     streak_invariant (getStreakData (snd (updateQuizStats today passed store))) \<and>
     streak_invariant (getStreakData (snd (resetStreak store))) \<and>
     (streak_invariant (getStreakData (map_option stringified (parse jsonData))) \<longrightarrow>
        streak_invariant (getStreakData (snd (importStreakData medium parse jsonData store))))"
proof -
  have "streak_invariant (getStreakData (snd (updateStreakForAnswer isCorrect store)))"
    using assms
    by (simp add: updateStreakForAnswer_eq getStreakData_saveStreakData answered_invariant
        as_stored_invariant)
  moreover have "streak_invariant (getStreakData (snd (updateQuizStats today passed store)))"
  proof -
    from assms have "streak_invariant (fst (updateQuizStats today passed store))"
      by (simp add: updateQuizStats_def Let_def streak_invariant_def)
    then have "streak_invariant (as_stored (fst (updateQuizStats today passed store)))"
      by (rule as_stored_invariant)
    then show ?thesis
      by (simp add: updateQuizStats_def Let_def getStreakData_saveStreakData)
  qed
  moreover have "streak_invariant (getStreakData (snd (resetStreak store)))"
    by (simp add: resetStreak_def Let_def getStreakData_saveStreakData streak_invariant_def
        as_stored_def number_order)
  moreover have "streak_invariant (getStreakData (snd (importStreakData medium parse jsonData store)))"
    if written: "streak_invariant (getStreakData (map_option stringified (parse jsonData)))"
  proof (cases "fst (importStreakData medium parse jsonData store)")
    case False
    then have "snd (importStreakData medium parse jsonData store) = store"
      by (simp add: importStreakData_eq split: option.splits if_splits)
    with assms show ?thesis by simp
  next
    case True
    then obtain data where data: "parse jsonData = Some data"
      and "snd (importStreakData medium parse jsonData store) =
        setItem medium (stringified data) store"
      by (auto simp add: importStreakData_eq split: option.splits if_splits)
    with setItem_cases [of medium "stringified data" store]
    consider "snd (importStreakData medium parse jsonData store) = Some (stringified data)"
      | "snd (importStreakData medium parse jsonData store) = store"
      | "snd (importStreakData medium parse jsonData store) = None"
      by auto
    then show ?thesis
    proof cases
      case 1
      with written data show ?thesis by simp
    next
      case 2
      with assms show ?thesis by simp
    next
      case 3
      then show ?thesis
        by (simp add: getStreakData_None defaultData_def streak_invariant_def number_order)
    qed
  qed
  ultimately show ?thesis by simp
qed

theorem invariant_preserved_witness:
  "streak_invariant (getStreakData
      (saveStreakData (defaultData\<lparr>consecutiveCorrectAnswers := Fin 2\<rparr>))) \<and>
   streak_invariant (getStreakData (snd (updateStreakForAnswer True
      (saveStreakData (defaultData\<lparr>consecutiveCorrectAnswers := Fin 2\<rparr>))))) \<and>
   isInStreak (getStreakData (snd (updateStreakForAnswer True
      (saveStreakData (defaultData\<lparr>consecutiveCorrectAnswers := Fin 2\<rparr>))))) \<and>
   streak_invariant (getStreakData (snd (importStreakData LocalStorage
      (\<lambda>text. Some (JObj [(''currentStreak'', JNum (Fin 0)), (''longestStreak'', JNum (Fin 4)),
         (''lastQuizDate'', JStr ''Mon Nov 02 2026''), (''totalQuizzesPassed'', JNum (Fin 1)),
         (''totalQuizzesTaken'', JNum (Fin 2))]))
      ''backup'' (saveStreakData (defaultData\<lparr>consecutiveCorrectAnswers := Fin 2\<rparr>))))) \<and>
   longestStreak (getStreakData (snd (importStreakData LocalStorage
      (\<lambda>text. Some (JObj [(''currentStreak'', JNum (Fin 0)), (''longestStreak'', JNum (Fin 4)),
         (''lastQuizDate'', JStr ''Mon Nov 02 2026''), (''totalQuizzesPassed'', JNum (Fin 1)),
         (''totalQuizzesTaken'', JNum (Fin 2))]))
      ''backup'' (saveStreakData (defaultData\<lparr>consecutiveCorrectAnswers := Fin 2\<rparr>))))) = Fin 4"
proof -
  let ?store = "saveStreakData (defaultData\<lparr>consecutiveCorrectAnswers := Fin 2\<rparr>)"
  let ?parse = "\<lambda>text :: string. Some (JObj [(''currentStreak'', JNum (Fin 0)),
         (''longestStreak'', JNum (Fin 4)),
         (''lastQuizDate'', JStr ''Mon Nov 02 2026''), (''totalQuizzesPassed'', JNum (Fin 1)),
         (''totalQuizzesTaken'', JNum (Fin 2))])"
  have pre: "streak_invariant (getStreakData ?store)"
    by (simp add: getStreakData_saveStreakData streak_invariant_def defaultData_def
        as_stored_def number_order)
  have imp: "streak_invariant (getStreakData (map_option stringified (?parse ''backup'')))"
    by (simp add: getStreakData_def streak_invariant_def number_order)
  have upd: "getStreakData (snd (updateStreakForAnswer True ?store)) =
      defaultData\<lparr>consecutiveCorrectAnswers := Fin 3, isInStreak := True,
        currentStreak := Fin 3, totalPoints := Fin 1, longestStreak := Fin 3\<rparr>"
    by (simp add: updateStreakForAnswer_eq getStreakData_saveStreakData answered_def
        defaultData_def Let_def as_stored_def round_double_exact number_order)
  have "snd (importStreakData LocalStorage ?parse ''backup'' ?store) =
      map_option stringified (?parse ''backup'')"
    by (simp add: importStreakData_def)
  then have "longestStreak (getStreakData
      (snd (importStreakData LocalStorage ?parse ''backup'' ?store))) = Fin 4"
    by (simp add: getStreakData_def)
  with invariant_preserved [OF pre, of True _ _ ?parse "''backup''" LocalStorage] imp upd pre
  show ?thesis
    by simp
qed

text \<open>
  C3 as stated fails. An import whose record has \<open>currentStreak = 5\<close> and no
  \<open>isInStreak\<close> passes the check of the five fields and is stored; and an expiry, eight
  days after the last quiz, on a streak of 3, leaves \<open>isInStreak\<close> set and the count at 3
  beside \<open>currentStreak = 0\<close>.
\<close>

theorem invariant_counterexample:
  "streak_invariant (getStreakData None) \<and>
   \<not> streak_invariant (getStreakData (snd (importStreakData LocalStorage
      (\<lambda>text. Some (JObj [(''currentStreak'', JNum (Fin 5)), (''longestStreak'', JNum (Fin 5)),
         (''lastQuizDate'', JStr ''Mon Nov 02 2026''), (''totalQuizzesPassed'', JNum (Fin 1)),
         (''totalQuizzesTaken'', JNum (Fin 2))]))
      ''backup'' None))) \<and>
   streak_invariant (defaultData\<lparr>currentStreak := Fin 3, consecutiveCorrectAnswers := Fin 3,
      isInStreak := True, lastQuizDate := ''Mon Nov 02 2026''\<rparr>) \<and>
   \<not> streak_invariant (getStreakData (snd (checkStreakExpiry (\<lambda>date. Some 0) 691200000 7
      (saveStreakData (defaultData\<lparr>currentStreak := Fin 3, consecutiveCorrectAnswers := Fin 3,
         isInStreak := True, lastQuizDate := ''Mon Nov 02 2026''\<rparr>)))))"
proof -
  let ?parse = "\<lambda>text :: string. Some (JObj [(''currentStreak'', JNum (Fin 5)),
         (''longestStreak'', JNum (Fin 5)),
         (''lastQuizDate'', JStr ''Mon Nov 02 2026''), (''totalQuizzesPassed'', JNum (Fin 1)),
         (''totalQuizzesTaken'', JNum (Fin 2))])"
  let ?s = "defaultData\<lparr>currentStreak := Fin 3, consecutiveCorrectAnswers := Fin 3,
      isInStreak := True, lastQuizDate := ''Mon Nov 02 2026''\<rparr>"
  have "streak_invariant (getStreakData None)"
    by (simp add: streak_invariant_def getStreakData_None defaultData_def number_order)
  moreover have "snd (importStreakData LocalStorage ?parse ''backup'' None) =
      map_option stringified (?parse ''backup'')"
    by (simp add: importStreakData_def)
  then have "\<not> streak_invariant (getStreakData
      (snd (importStreakData LocalStorage ?parse ''backup'' None)))"
    by (simp add: getStreakData_def streak_invariant_def number_order)
  moreover have "streak_invariant ?s"
    by (simp add: streak_invariant_def defaultData_def)
  moreover have "\<not> streak_invariant (getStreakData (snd (checkStreakExpiry (\<lambda>date. Some 0)
      691200000 7 (saveStreakData ?s))))"
    by (simp add: checkStreakExpiry_def getStreakData_saveStreakData Let_def
        streak_invariant_def defaultData_def as_stored_def number_order)
  ultimately show ?thesis
    by simp
qed

text \<open>
  C6, as amended. \<open>checkStreakExpiry\<close> writes only when \<open>currentStreak\<close> is not 0 (the
  test is \<open>=== 0\<close>, so a negative one counts) and the whole days since \<open>lastQuizDate\<close>
  exceed \<open>maxDaysInactive\<close>; it then stores the state with \<open>currentStreak\<close> set to 0 and
  every other field as it was, and returns true. Otherwise the store is as it was and the
  result is false.
\<close>

theorem expiry_frame:
  "checkStreakExpiry getTime today maxDaysInactive store =
     (if currentStreak (getStreakData store) \<noteq> Fin 0 \<and>
         inactive_longer getTime today maxDaysInactive (lastQuizDate (getStreakData store))
      then (True, saveStreakData ((getStreakData store)\<lparr>currentStreak := Fin 0\<rparr>))
      else (False, store)) \<and>
   getStreakData (snd (checkStreakExpiry getTime today maxDaysInactive store)) =
     (if fst (checkStreakExpiry getTime today maxDaysInactive store)
      then as_stored ((getStreakData store)\<lparr>currentStreak := Fin 0\<rparr>)
      else getStreakData store)"
  by (auto simp add: checkStreakExpiry_def inactive_longer_def days_since_def Let_def
      getStreakData_saveStreakData split: option.splits)

theorem expiry_frame_witness:
  "checkStreakExpiry (\<lambda>date. Some 0) 691200000 7
      (saveStreakData (defaultData\<lparr>currentStreak := Fin 3, consecutiveCorrectAnswers := Fin 3,
         isInStreak := True, totalPoints := Fin 1, lastQuizDate := ''Mon Nov 02 2026''\<rparr>)) =
     (True, saveStreakData (defaultData\<lparr>currentStreak := Fin 0,
         consecutiveCorrectAnswers := Fin 3,
         isInStreak := True, totalPoints := Fin 1, lastQuizDate := ''Mon Nov 02 2026''\<rparr>)) \<and>
   checkStreakExpiry (\<lambda>date. Some 0) 691199999 7
      (saveStreakData (defaultData\<lparr>currentStreak := Fin 3, consecutiveCorrectAnswers := Fin 3,
         isInStreak := True, totalPoints := Fin 1, lastQuizDate := ''Mon Nov 02 2026''\<rparr>)) =
     (False, saveStreakData (defaultData\<lparr>currentStreak := Fin 3,
         consecutiveCorrectAnswers := Fin 3,
         isInStreak := True, totalPoints := Fin 1, lastQuizDate := ''Mon Nov 02 2026''\<rparr>))"
proof -
  let ?s = "defaultData\<lparr>currentStreak := Fin 3, consecutiveCorrectAnswers := Fin 3,
         isInStreak := True, totalPoints := Fin 1, lastQuizDate := ''Mon Nov 02 2026''\<rparr>"
  have s: "getStreakData (saveStreakData ?s) = ?s"
    by (simp add: getStreakData_saveStreakData as_stored_def defaultData_def)
  from expiry_frame [of "\<lambda>date. Some 0" 691200000 7 "saveStreakData ?s"]
    expiry_frame [of "\<lambda>date. Some 0" 691199999 7 "saveStreakData ?s"]
  have "checkStreakExpiry (\<lambda>date. Some 0) 691200000 7 (saveStreakData ?s) =
      (True, saveStreakData (?s\<lparr>currentStreak := Fin 0\<rparr>)) \<and>
    checkStreakExpiry (\<lambda>date. Some 0) 691199999 7 (saveStreakData ?s) =
      (False, saveStreakData ?s)"
    unfolding s
    by (simp add: inactive_longer_def days_since_def defaultData_def)
  then show ?thesis
    by (simp add: defaultData_def)
qed

text \<open>
  C6 as stated fails for a negative \<open>currentStreak\<close>: an import stores \<open>-3\<close>, and eight
  days after the last quiz the expiry returns true and writes 0, although
  \<open>currentStreak > 0\<close> is false.
\<close>

theorem expiry_frame_counterexample:
  "\<not> currentStreak (getStreakData (snd (importStreakData LocalStorage
      (\<lambda>text. Some (JObj [(''currentStreak'', JNum (Fin (- 3))), (''longestStreak'', JNum (Fin 5)),
         (''lastQuizDate'', JStr ''Mon Nov 02 2026''), (''totalQuizzesPassed'', JNum (Fin 1)),
         (''totalQuizzesTaken'', JNum (Fin 2))]))
      ''backup'' None))) > Fin 0 \<and>
   fst (checkStreakExpiry (\<lambda>date. Some 0) 691200000 7
     (snd (importStreakData LocalStorage
      (\<lambda>text. Some (JObj [(''currentStreak'', JNum (Fin (- 3))), (''longestStreak'', JNum (Fin 5)),
         (''lastQuizDate'', JStr ''Mon Nov 02 2026''), (''totalQuizzesPassed'', JNum (Fin 1)),
         (''totalQuizzesTaken'', JNum (Fin 2))]))
      ''backup'' None))) \<and>
   currentStreak (getStreakData (snd (checkStreakExpiry (\<lambda>date. Some 0) 691200000 7
     (snd (importStreakData LocalStorage
      (\<lambda>text. Some (JObj [(''currentStreak'', JNum (Fin (- 3))), (''longestStreak'', JNum (Fin 5)),
         (''lastQuizDate'', JStr ''Mon Nov 02 2026''), (''totalQuizzesPassed'', JNum (Fin 1)),
         (''totalQuizzesTaken'', JNum (Fin 2))]))
      ''backup'' None))))) = Fin 0"
proof -
  let ?parse = "\<lambda>text :: string. Some (JObj [(''currentStreak'', JNum (Fin (- 3))),
         (''longestStreak'', JNum (Fin 5)),
         (''lastQuizDate'', JStr ''Mon Nov 02 2026''), (''totalQuizzesPassed'', JNum (Fin 1)),
         (''totalQuizzesTaken'', JNum (Fin 2))])"
  let ?store = "snd (importStreakData LocalStorage ?parse ''backup'' None)"
  have "?store = map_option stringified (?parse ''backup'')"
    by (simp add: importStreakData_def)
  then have s: "getStreakData ?store =
      defaultData\<lparr>currentStreak := Fin (- 3), longestStreak := Fin 5,
        lastQuizDate := ''Mon Nov 02 2026'', totalQuizzesPassed := Fin 1,
        totalQuizzesTaken := Fin 2\<rparr>"
    by (simp add: getStreakData_def defaultData_def)
  have "\<not> currentStreak (getStreakData ?store) > Fin 0"
    unfolding s by (simp add: number_order)
  moreover have fired: "checkStreakExpiry (\<lambda>date. Some 0) 691200000 7 ?store =
      (True, saveStreakData ((getStreakData ?store)\<lparr>currentStreak := Fin 0\<rparr>))"
    unfolding checkStreakExpiry_def Let_def s
    by (simp add: defaultData_def)
  ultimately show ?thesis
    by (simp add: getStreakData_saveStreakData as_stored_def)
qed












section \<open>Properties of the leaderboard engine\<close>

subsection \<open>The comparator\<close>

lemma bit_length_positive: "0 < n \<Longrightarrow> bit_length n = Suc (bit_length (n div 2))"
  by (subst bit_length.simps) simp

lemma bit_length_lower: "0 < n \<Longrightarrow> 2 ^ (bit_length n - 1) \<le> n"
proof (induction n rule: bit_length.induct)
  case (1 n)
  show ?case
  proof (cases "n div 2 = 0")
    case True
    with "1.prems" have "n = 1"
      by (simp add: div_eq_0_iff)
    then show ?thesis
      by (simp add: bit_length.simps [of "Suc 0"] bit_length.simps [of 0])
  next
    case False
    then have half: "0 < n div 2"
      by simp
    with "1.IH" "1.prems" have "2 ^ (bit_length (n div 2) - 1) \<le> n div 2"
      by simp
    moreover from half have "bit_length (n div 2) = Suc (bit_length (n div 2 div 2))"
      by (rule bit_length_positive)
    ultimately have "2 ^ bit_length (n div 2) \<le> 2 * (n div 2)"
      by simp
    also have "\<dots> \<le> n"
      by simp
    finally show ?thesis
      using "1.prems" by (simp add: bit_length_positive)
  qed
qed

lemma round_double_sign: "round_double n \<le> Fin 0 \<longleftrightarrow> n \<le> 0"
proof (cases "\<bar>n\<bar> \<le> 2 ^ 53")
  case True
  then show ?thesis
    by (simp add: round_double_exact number_order)
next
  case False
  define q :: int where "q = 2 ^ (bit_length (nat \<bar>n\<bar>) - 53)"
  define m where "m = \<bar>n\<bar> div q"
  define m' where
    "m' = (if 2 * (\<bar>n\<bar> mod q) > q \<or> (2 * (\<bar>n\<bar> mod q) = q \<and> odd m) then m + 1 else m)"
  define big :: int where "big = 2 ^ 1024"
  from False have pos: "0 < nat \<bar>n\<bar>"
    by simp
  have "q \<le> 2 ^ (bit_length (nat \<bar>n\<bar>) - 1)"
    unfolding q_def by (rule power_increasing) simp_all
  also have "\<dots> \<le> int (nat \<bar>n\<bar>)"
  proof -
    from bit_length_lower [OF pos]
    have "int (2 ^ (bit_length (nat \<bar>n\<bar>) - 1)) \<le> int (nat \<bar>n\<bar>)"
      by (simp only: of_nat_le_iff)
    then show ?thesis
      by simp
  qed
  finally have "q \<le> \<bar>n\<bar>"
    by simp
  moreover have "0 < q"
    by (simp add: q_def)
  ultimately have "0 < \<bar>n\<bar> div q"
    by (simp only: pos_imp_zdiv_pos_iff)
  then have "1 \<le> m"
    by (simp add: m_def)
  then have "0 < m'"
    by (simp add: m'_def)
  with \<open>0 < q\<close> have v: "0 < m' * q"
    by simp
  have "round_double n =
      (let q = 2 ^ (bit_length (nat \<bar>n\<bar>) - 53);
           m = \<bar>n\<bar> div q;
           r = \<bar>n\<bar> mod q;
           m' = (if 2 * r > q \<or> (2 * r = q \<and> odd m) then m + 1 else m);
           v = m' * q
       in if v \<ge> 2 ^ 1024 then (if n > 0 then PosInf else NegInf)
          else Fin (sgn n * v))"
    unfolding round_double_def using False by (simp only: if_False)
  then have eq: "round_double n =
      (if m' * q \<ge> big then (if n > 0 then PosInf else NegInf)
       else Fin (sgn n * (m' * q)))"
    unfolding Let_def q_def [symmetric] m_def [symmetric] m'_def [symmetric] big_def [symmetric] .
  show ?thesis
  proof (cases "n > 0")
    case True
    with v show ?thesis
      unfolding eq by (simp add: number_order not_le)
  next
    case neg: False
    with False have "n < 0"
      by auto
    with v show ?thesis
      unfolding eq by (simp add: number_order)
  qed
qed

lemma js_sub_sign: "sort_compare (\<lambda>x y. js_sub x y) x y \<le> Fin 0 \<longleftrightarrow> x \<le> y"
  by (cases x; cases y) (simp_all add: sort_compare_def round_double_sign number_order)

lemma negated_le: "negated a \<le> negated b \<longleftrightarrow> b \<le> a"
  by (cases a; cases b) (simp_all add: number_order)

lemma negated_less: "negated a < negated b \<longleftrightarrow> b < a"
  by (cases a; cases b) (simp_all add: number_order)

lemma negated_eq: "negated a = negated b \<longleftrightarrow> a = b"
  by (cases a; cases b) simp_all

lemma compareEntries_le:
  "sort_compare compareEntries a b \<le> Fin 0 \<longleftrightarrow> descending_key a \<le> descending_key b"
proof -
  have sub: "(case js_sub x y of None \<Rightarrow> Fin 0 | Some v \<Rightarrow> v) \<le> Fin 0 \<longleftrightarrow> x \<le> y" for x y
    using js_sub_sign [of x y] by (simp add: sort_compare_def)
  show ?thesis
    by (auto simp add: compareEntries_def sort_compare_def descending_key_def sub
        negated_le negated_less negated_eq)
qed

subsection \<open>The array methods\<close>

lemma array_slice_take: "0 \<le> n \<Longrightarrow> array_slice 0 n xs = take (nat n) xs"
  by (simp add: array_slice_def Let_def min_def)

lemma insert_sorted_insort:
  "insert_sorted compareEntries x ys = insort_key descending_key x ys"
  by (induction ys) (simp_all add: compareEntries_le)

lemma array_sort_sort_key:
  "array_sort compareEntries xs = List.sort_key descending_key xs"
proof -
  have "insert_sorted compareEntries = insort_key descending_key"
    by (intro ext) (rule insert_sorted_insort)
  then show ?thesis
    by (simp add: array_sort_def sort_key_def)
qed

lemma key_ge_descending: "key_ge a b \<longleftrightarrow> descending_key a \<le> descending_key b"
  by (auto simp add: key_ge_def descending_key_def negated_le negated_less negated_eq)

lemma entry_key_descending:
  "entry_key e = (a, b, c) \<longleftrightarrow> descending_key e = (negated a, negated b, negated c)"
  by (auto simp add: entry_key_def descending_key_def negated_eq)

lemma sorted_array_sort: "sorted_wrt key_ge (array_sort compareEntries xs)"
proof -
  have "sorted (map descending_key (List.sort_key descending_key xs))"
    by (rule sorted_sort_key)
  then show ?thesis
    by (simp add: array_sort_sort_key sorted_map key_ge_descending [abs_def])
qed

lemma stable_array_sort:
  "filter (\<lambda>e. entry_key e = k) (array_sort compareEntries xs) =
   filter (\<lambda>e. entry_key e = k) xs"
proof -
  obtain a b c where k: "k = (a, b, c)"
    by (cases k) auto
  show ?thesis
    unfolding k entry_key_descending array_sort_sort_key
    by (rule sort_key_stable)
qed

lemma mset_array_sort: "mset (array_sort compareEntries xs) = mset xs"
  by (simp add: array_sort_sort_key)

lemma length_array_sort: "length (array_sort compareEntries xs) = length xs"
  by (simp add: array_sort_sort_key)

lemma filter_take_prefix:
  "filter P (take n xs) = take (length (filter P (take n xs))) (filter P xs)"
proof (induction xs arbitrary: n)
  case Nil
  show ?case by simp
next
  case (Cons x xs)
  show ?case
  proof (cases n)
    case 0
    then show ?thesis by simp
  next
    case (Suc m)
    with Cons.IH [of m] show ?thesis by simp
  qed
qed

lemma mset_take_subset: "mset (take n xs) \<subseteq># mset xs"
proof -
  have "mset xs = mset (take n xs) + mset (drop n xs)"
    by (metis append_take_drop_id mset_append)
  then show ?thesis by simp
qed

subsection \<open>Ranks\<close>

lemma length_ranked: "length (ranked xs) = length xs"
  by (simp add: ranked_def)

lemma nth_ranked: "i < length xs \<Longrightarrow> ranked xs ! i = (xs ! i)\<lparr>rank := int i + 1\<rparr>"
  by (simp add: ranked_def nth_enumerate_eq)

lemma map_unranked_ranked: "map unranked (ranked xs) = map unranked xs"
  by (rule nth_equalityI) (simp_all add: length_ranked nth_ranked unranked_def)

lemma map_rank_ranked: "map rank (ranked xs) = map (\<lambda>i. int i + 1) [0..<length xs]"
  by (rule nth_equalityI) (simp_all add: length_ranked nth_ranked)

lemma key_ge_rank: "key_ge (a\<lparr>rank := r\<rparr>) (b\<lparr>rank := s\<rparr>) = key_ge a b"
  by (simp add: key_ge_def)

lemma sorted_ranked: "sorted_wrt key_ge xs \<Longrightarrow> sorted_wrt key_ge (ranked xs)"
  by (simp add: sorted_wrt_iff_nth_less length_ranked nth_ranked key_ge_rank)

lemma unranked_eqD: "unranked a = unranked b \<Longrightarrow> b = a\<lparr>rank := rank b\<rparr>"
  by (cases a; cases b) (simp add: unranked_def)

lemma entry_key_unranked: "entry_key (unranked e) = entry_key e"
  by (simp add: entry_key_def unranked_def)

lemma playerName_unranked: "playerName (unranked e) = playerName e"
  by (simp add: unranked_def)

lemma filter_key_ranked:
  "map unranked (filter (\<lambda>e. entry_key e = k) (ranked xs)) =
   map unranked (filter (\<lambda>e. entry_key e = k) xs)"
proof -
  have "map unranked (filter (\<lambda>e. entry_key e = k) ys) =
        filter (\<lambda>e. entry_key e = k) (map unranked ys)" for ys
    by (simp add: filter_map comp_def entry_key_unranked)
  then show ?thesis
    by (simp add: map_unranked_ranked)
qed

lemma filter_name_ranked:
  "map unranked (filter (\<lambda>e. playerName e \<noteq> p) (ranked xs)) =
   map unranked (filter (\<lambda>e. playerName e \<noteq> p) xs)"
proof -
  have "map unranked (filter (\<lambda>e. playerName e \<noteq> p) ys) =
        filter (\<lambda>e. playerName e \<noteq> p) (map unranked ys)" for ys
    by (simp add: filter_map comp_def playerName_unranked)
  then show ?thesis
    by (simp add: map_unranked_ranked)
qed

subsection \<open>The upsert\<close>

lemma filter_update_found:
  "(\<And>x. P x \<Longrightarrow> P (f x)) \<Longrightarrow>
     filter (\<lambda>x. \<not> P x) (update_found P f xs) = filter (\<lambda>x. \<not> P x) xs"
  by (induction xs) simp_all

lemma length_update_found: "length (update_found P f xs) = length xs"
  by (induction xs) simp_all

lemma filter_upserted:
  "filter (\<lambda>e. playerName e \<noteq> p) (upserted p now sd lb) =
   filter (\<lambda>e. playerName e \<noteq> p) lb"
  by (simp add: upserted_def filter_update_found split: option.splits)

lemma length_upserted:
  "length (upserted p now sd lb) =
     (if p \<in> playerName ` set lb then length lb else length lb + 1)"
  by (auto simp add: upserted_def length_update_found find_None_iff find_Some_iff
      split: option.splits)

lemma updateLeaderboard_take:
  "updateLeaderboard stored now sd lb =
     take 100 (ranked (array_sort compareEntries (upserted (getPlayerName stored) now sd lb)))"
  by (simp add: updateLeaderboard_def Let_def array_slice_take)

subsection \<open>Windows\<close>

lemma index_window_take_drop:
  assumes "0 \<le> a" and "b \<le> int (length xs)"
  shows "index_window a b xs = take (nat (b - a)) (drop (nat a) xs)"
proof (rule nth_equalityI)
  show "length (index_window a b xs) = length (take (nat (b - a)) (drop (nat a) xs))"
    using assms by (auto simp add: index_window_def min_def)
next
  fix k
  assume "k < length (index_window a b xs)"
  then have k: "int k < b - a"
    by (simp add: index_window_def)
  with assms have "nat (a + int k) = nat a + k" and "nat a + k < length xs"
    by (simp_all add: nat_add_distrib)
  moreover from k have "[a..b - 1] ! k = a + int k"
    by (intro nth_upto) simp
  ultimately show "index_window a b xs ! k = take (nat (b - a)) (drop (nat a) xs) ! k"
    using k by (simp add: index_window_def)
qed

lemma array_slice_window:
  assumes "0 \<le> a"
  shows "array_slice a b xs =
     index_window a (if b < 0 then int (length xs) + b else min (int (length xs)) b) xs"
proof -
  let ?len = "int (length xs)"
  let ?b = "if b < 0 then ?len + b else min ?len b"
  have "?b \<le> ?len"
    by simp
  with assms have w: "index_window a ?b xs = take (nat (?b - a)) (drop (nat a) xs)"
    by (rule index_window_take_drop)
  show ?thesis
  proof (cases "a \<le> ?len")
    case True
    with assms show ?thesis
      unfolding w by (auto simp add: array_slice_def Let_def min_def max_def)
  next
    case False
    with assms show ?thesis
      unfolding w by (simp add: array_slice_def Let_def min_def max_def)
  qed
qed

subsection \<open>The roster after an update\<close>

text \<open>
  C4. \<open>updateLeaderboard\<close> sorts the whole roster after the upsert, a permutation of it,
  into descending order of points, then longest streak, then quizzes passed. The roster it
  saves is in that order; the entry at position \<open>i\<close> (from 0) has rank \<open>i + 1\<close>, so the
  ranks are 1 to N in that order; it has the first 100 entries, or all when there are
  fewer; every entry it keeps is, rank aside, an entry of the roster after the upsert, and
  every entry it drops has a sort key less than or equal to that of every entry it keeps.
  When a player who is not among 100 stored entries is added, 101 entries are sorted and
  100 are kept.
\<close>

theorem roster_sorted_ranked_capped:
  "sorted_wrt key_ge (array_sort compareEntries
       (upserted (getPlayerName stored) now streakData leaderboard)) \<and>
   mset (array_sort compareEntries
       (upserted (getPlayerName stored) now streakData leaderboard)) =
     mset (upserted (getPlayerName stored) now streakData leaderboard) \<and>
   sorted_wrt key_ge (updateLeaderboard stored now streakData leaderboard) \<and>
   map rank (updateLeaderboard stored now streakData leaderboard) =
     map (\<lambda>i. int i + 1) [0..<length (updateLeaderboard stored now streakData leaderboard)] \<and>
   length (updateLeaderboard stored now streakData leaderboard) =
     min 100 (length (upserted (getPlayerName stored) now streakData leaderboard)) \<and>
   mset (map unranked (updateLeaderboard stored now streakData leaderboard)) \<subseteq>#
     mset (map unranked (upserted (getPlayerName stored) now streakData leaderboard)) \<and>
   (\<forall>kept \<in> set (updateLeaderboard stored now streakData leaderboard).
      \<forall>dropped \<in># mset (map unranked (upserted (getPlayerName stored) now streakData leaderboard)) -
          mset (map unranked (updateLeaderboard stored now streakData leaderboard)).
        key_ge kept dropped) \<and>
   (length leaderboard = 100 \<and> getPlayerName stored \<notin> playerName ` set leaderboard \<longrightarrow>
      length (upserted (getPlayerName stored) now streakData leaderboard) = 101 \<and>
      length (updateLeaderboard stored now streakData leaderboard) = 100)"
proof -
  let ?pre = "upserted (getPlayerName stored) now streakData leaderboard"
  let ?all = "ranked (array_sort compareEntries ?pre)"
  let ?new = "updateLeaderboard stored now streakData leaderboard"
  have eq: "?new = take 100 ?all"
    by (rule updateLeaderboard_take)
  have whole: "sorted_wrt key_ge (array_sort compareEntries ?pre)"
    by (rule sorted_array_sort)
  have perm: "mset (array_sort compareEntries ?pre) = mset ?pre"
    by (rule mset_array_sort)
  from whole have all: "sorted_wrt key_ge ?all"
    by (rule sorted_ranked)
  then have sorted: "sorted_wrt key_ge ?new"
    unfolding eq by (rule sorted_wrt_take)
  have "map rank (take 100 ?all) = take 100 (map rank ?all)"
    by (simp add: take_map)
  also have "\<dots> = map (\<lambda>i. int i + 1) (take 100 [0..<length (array_sort compareEntries ?pre)])"
    by (simp add: map_rank_ranked take_map)
  also have "\<dots> = map (\<lambda>i. int i + 1) [0..<length (take 100 ?all)]"
    by (simp add: length_ranked min_def)
  finally have ranks: "map rank ?new = map (\<lambda>i. int i + 1) [0..<length ?new]"
    unfolding eq .
  have len: "length ?new = min 100 (length ?pre)"
    by (simp add: eq length_ranked length_array_sort)
  have split: "mset (map unranked ?pre) =
      mset (map unranked ?new) + mset (map unranked (drop 100 ?all))"
  proof -
    have "mset (map unranked ?pre) = mset (map unranked ?all)"
      by (simp add: map_unranked_ranked perm)
    also have "\<dots> = mset (map unranked (take 100 ?all)) + mset (map unranked (drop 100 ?all))"
      by (metis append_take_drop_id map_append mset_append)
    finally show ?thesis
      unfolding eq .
  qed
  then have sub: "mset (map unranked ?new) \<subseteq># mset (map unranked ?pre)"
    by simp
  have above: "key_ge kept dropped"
    if "kept \<in> set ?new"
      and "dropped \<in># mset (map unranked ?pre) - mset (map unranked ?new)"
    for kept dropped
  proof -
    have "mset (map unranked ?pre) - mset (map unranked ?new) =
        mset (map unranked (drop 100 ?all))"
      by (simp only: split add_diff_cancel_left')
    with that(2) have "dropped \<in># mset (map unranked (drop 100 ?all))"
      by (simp only:)
    then have "dropped \<in> set (map unranked (drop 100 ?all))"
      by (simp only: set_mset_mset)
    then obtain d where d: "d \<in> set (drop 100 ?all)" and dropped: "dropped = unranked d"
      by auto
    from all have "sorted_wrt key_ge (take 100 ?all @ drop 100 ?all)"
      by simp
    with that(1) d have "key_ge kept d"
      unfolding eq sorted_wrt_append by blast
    then show ?thesis
      by (simp add: dropped key_ge_def unranked_def)
  qed
  have full: "length leaderboard = 100 \<and> getPlayerName stored \<notin> playerName ` set leaderboard \<longrightarrow>
      length ?pre = 101 \<and> length ?new = 100"
    by (simp add: len length_upserted)
  from whole perm sorted ranks len sub above full show ?thesis
    by blast
qed

lemma array_sort_new_top:
  assumes "sorted_wrt key_ge xs" and "\<forall>x \<in> set xs. \<not> key_ge x e"
  shows "array_sort compareEntries (xs @ [e]) = e # xs"
proof -
  have "foldr (insort_key descending_key) xs [e] = e # xs"
    using assms
  proof (induction xs)
    case Nil
    show ?case by simp
  next
    case (Cons x xs)
    then have rest: "foldr (insort_key descending_key) xs [e] = e # xs"
      by simp
    from Cons.prems have "\<not> descending_key x \<le> descending_key e"
      by (simp add: key_ge_descending)
    moreover from Cons.prems have "\<forall>y \<in> set xs. descending_key x \<le> descending_key y"
      by (simp add: key_ge_descending)
    then have "insort_key descending_key x xs = x # xs"
      by (simp add: insort_is_Cons)
    ultimately show ?case
      by (simp add: rest)
  qed
  then show ?thesis
    by (simp add: array_sort_sort_key sort_key_def)
qed

theorem roster_sorted_ranked_capped_witness:
  "length (map (\<lambda>i. \<lparr>playerName = ''p'' @ replicate i CHR ''x'',
       LeaderboardEntry.totalPoints = Fin (100 - int i), LeaderboardEntry.longestStreak = Fin 3,
       LeaderboardEntry.totalQuizzesPassed = Fin 1, lastActive = ''t'',
       rank = int i + 1\<rparr>) [0..<100]) = 100 \<and>
   getPlayerName (Some ''new'') \<notin> playerName `
     set (map (\<lambda>i. \<lparr>playerName = ''p'' @ replicate i CHR ''x'',
       LeaderboardEntry.totalPoints = Fin (100 - int i), LeaderboardEntry.longestStreak = Fin 3,
       LeaderboardEntry.totalQuizzesPassed = Fin 1, lastActive = ''t'',
       rank = int i + 1\<rparr>) [0..<100]) \<and>
   length (updateLeaderboard (Some ''new'') ''now'' (defaultData\<lparr>totalPoints := Fin 1000\<rparr>)
     (map (\<lambda>i. \<lparr>playerName = ''p'' @ replicate i CHR ''x'',
       LeaderboardEntry.totalPoints = Fin (100 - int i), LeaderboardEntry.longestStreak = Fin 3,
       LeaderboardEntry.totalQuizzesPassed = Fin 1, lastActive = ''t'',
       rank = int i + 1\<rparr>) [0..<100])) = 100 \<and>
   updateLeaderboard (Some ''new'') ''now'' (defaultData\<lparr>totalPoints := Fin 1000\<rparr>)
     (map (\<lambda>i. \<lparr>playerName = ''p'' @ replicate i CHR ''x'',
       LeaderboardEntry.totalPoints = Fin (100 - int i), LeaderboardEntry.longestStreak = Fin 3,
       LeaderboardEntry.totalQuizzesPassed = Fin 1, lastActive = ''t'',
       rank = int i + 1\<rparr>) [0..<100]) ! 0 =
     \<lparr>playerName = ''new'', LeaderboardEntry.totalPoints = Fin 1000,
      LeaderboardEntry.longestStreak = Fin 0, LeaderboardEntry.totalQuizzesPassed = Fin 0,
      lastActive = ''now'', rank = 1\<rparr> \<and>
   updateLeaderboard (Some ''new'') ''now'' (defaultData\<lparr>totalPoints := Fin 1000\<rparr>)
     (map (\<lambda>i. \<lparr>playerName = ''p'' @ replicate i CHR ''x'',
       LeaderboardEntry.totalPoints = Fin (100 - int i), LeaderboardEntry.longestStreak = Fin 3,
       LeaderboardEntry.totalQuizzesPassed = Fin 1, lastActive = ''t'',
       rank = int i + 1\<rparr>) [0..<100]) ! 99 =
     \<lparr>playerName = ''p'' @ replicate 98 CHR ''x'', LeaderboardEntry.totalPoints = Fin 2,
      LeaderboardEntry.longestStreak = Fin 3, LeaderboardEntry.totalQuizzesPassed = Fin 1,
      lastActive = ''t'', rank = 100\<rparr>"
proof -
  define entry where "entry = (\<lambda>i. \<lparr>playerName = ''p'' @ replicate i CHR ''x'',
       LeaderboardEntry.totalPoints = Fin (100 - int i), LeaderboardEntry.longestStreak = Fin 3,
       LeaderboardEntry.totalQuizzesPassed = Fin 1, lastActive = ''t'',
       rank = int i + 1\<rparr>)"
  define lb where "lb = map entry [0..<100]"
  define new where "new = \<lparr>playerName = ''new'', LeaderboardEntry.totalPoints = Fin 1000,
      LeaderboardEntry.longestStreak = Fin 0, LeaderboardEntry.totalQuizzesPassed = Fin 0,
      lastActive = ''now'', rank = 0\<rparr>"
  let ?sd = "defaultData\<lparr>totalPoints := Fin 1000\<rparr>"
  let ?result = "updateLeaderboard (Some ''new'') ''now'' ?sd lb"
  have len: "length lb = 100"
    by (simp add: lb_def)
  have name: "getPlayerName (Some ''new'') = ''new''"
    by (simp add: getPlayerName_def)
  have absent: "getPlayerName (Some ''new'') \<notin> playerName ` set lb"
    by (auto simp add: name lb_def entry_def)
  from roster_sorted_ranked_capped [of "Some ''new''" "''now''" ?sd lb] len absent
  have kept: "length ?result = 100"
    by blast
  have "sorted_wrt (\<lambda>i j. key_ge (entry i) (entry j)) [0..<100]"
    by (rule sorted_wrt_mono_rel [OF _ sorted_wrt_upt])
      (simp add: key_ge_def entry_def number_order)
  then have sorted: "sorted_wrt key_ge lb"
    by (simp add: lb_def sorted_wrt_map)
  have below: "\<forall>x \<in> set lb. \<not> key_ge x new"
    by (auto simp add: lb_def key_ge_def entry_def new_def number_order)
  have "find (\<lambda>e. playerName e = ''new'') lb = None"
    by (auto simp add: find_None_iff lb_def entry_def)
  then have "upserted ''new'' ''now'' ?sd lb = lb @ [new]"
    by (simp add: upserted_def new_def defaultData_def)
  with array_sort_new_top [OF sorted below]
  have result: "?result = take 100 (ranked (new # lb))"
    by (simp add: updateLeaderboard_take name)
  have first: "?result ! 0 = new\<lparr>rank := 1\<rparr>"
    unfolding result by (simp add: nth_ranked len)
  have "?result ! 99 = (lb ! 98)\<lparr>rank := 100\<rparr>"
    unfolding result by (simp add: nth_ranked len)
  also have "lb ! 98 = entry 98"
    by (simp add: lb_def)
  finally have last: "?result ! 99 = (entry 98)\<lparr>rank := 100\<rparr>" .
  from len absent kept first last show ?thesis
    unfolding lb_def entry_def new_def by simp
qed

text \<open>
  C5. For every sort key, the entries of the saved roster with that key are, ranks aside,
  the first ones of the entries with that key in the roster before the sort, in the same
  order. Upserting A (100, 10, 5), B (100, 10, 5) and C (150, 1, 1) into an empty roster
  gives C, A, B with ranks 1, 2, 3.
\<close>

theorem stable_ties:
  "map unranked (filter (\<lambda>e. entry_key e = k)
      (updateLeaderboard stored now streakData leaderboard)) =
   take (length (filter (\<lambda>e. entry_key e = k)
      (updateLeaderboard stored now streakData leaderboard)))
     (map unranked (filter (\<lambda>e. entry_key e = k)
        (upserted (getPlayerName stored) now streakData leaderboard))) \<and>
   updateLeaderboard (Some ''C'') t3
     (sC\<lparr>totalPoints := Fin 150, longestStreak := Fin 1, totalQuizzesPassed := Fin 1\<rparr>)
     (updateLeaderboard (Some ''B'') t2
        (sB\<lparr>totalPoints := Fin 100, longestStreak := Fin 10, totalQuizzesPassed := Fin 5\<rparr>)
        (updateLeaderboard (Some ''A'') t1
           (sA\<lparr>totalPoints := Fin 100, longestStreak := Fin 10, totalQuizzesPassed := Fin 5\<rparr>) [])) =
   [\<lparr>playerName = ''C'', totalPoints = Fin 150, longestStreak = Fin 1, totalQuizzesPassed = Fin 1,
     lastActive = t3, rank = 1\<rparr>,
    \<lparr>playerName = ''A'', totalPoints = Fin 100, longestStreak = Fin 10, totalQuizzesPassed = Fin 5,
     lastActive = t1, rank = 2\<rparr>,
    \<lparr>playerName = ''B'', totalPoints = Fin 100, longestStreak = Fin 10, totalQuizzesPassed = Fin 5,
     lastActive = t2, rank = 3\<rparr>]"
proof -
  let ?pre = "upserted (getPlayerName stored) now streakData leaderboard"
  let ?all = "ranked (array_sort compareEntries ?pre)"
  let ?P = "\<lambda>e. entry_key e = k"
  have "map unranked (filter ?P (take 100 ?all)) =
        map unranked (take (length (filter ?P (take 100 ?all))) (filter ?P ?all))"
    using filter_take_prefix [of ?P 100 ?all] by simp
  also have "\<dots> = take (length (filter ?P (take 100 ?all))) (map unranked (filter ?P ?all))"
    by (simp add: take_map)
  also have "map unranked (filter ?P ?all) = map unranked (filter ?P ?pre)"
    by (simp add: filter_key_ranked stable_array_sort)
  finally have stable: "map unranked (filter ?P (take 100 ?all)) =
      take (length (filter ?P (take 100 ?all))) (map unranked (filter ?P ?pre))" .
  have scenario: "updateLeaderboard (Some ''C'') t3
     (sC\<lparr>totalPoints := Fin 150, longestStreak := Fin 1, totalQuizzesPassed := Fin 1\<rparr>)
     (updateLeaderboard (Some ''B'') t2
        (sB\<lparr>totalPoints := Fin 100, longestStreak := Fin 10, totalQuizzesPassed := Fin 5\<rparr>)
        (updateLeaderboard (Some ''A'') t1
           (sA\<lparr>totalPoints := Fin 100, longestStreak := Fin 10, totalQuizzesPassed := Fin 5\<rparr>) [])) =
   [\<lparr>playerName = ''C'', totalPoints = Fin 150, longestStreak = Fin 1, totalQuizzesPassed = Fin 1,
     lastActive = t3, rank = 1\<rparr>,
    \<lparr>playerName = ''A'', totalPoints = Fin 100, longestStreak = Fin 10, totalQuizzesPassed = Fin 5,
     lastActive = t1, rank = 2\<rparr>,
    \<lparr>playerName = ''B'', totalPoints = Fin 100, longestStreak = Fin 10, totalQuizzesPassed = Fin 5,
     lastActive = t2, rank = 3\<rparr>]"
    by (simp add: updateLeaderboard_take getPlayerName_def upserted_def array_sort_def
        compareEntries_def sort_compare_def ranked_def round_double_exact number_order)
  from stable scenario show ?thesis
    by (simp add: updateLeaderboard_take)
qed

text \<open>
  C10. \<open>updateLeaderboard\<close> for the player \<open>p\<close> changes no entry of another name: every
  entry of the saved roster whose name is not \<open>p\<close> is an entry of the stored roster with
  at most its rank changed, none is duplicated, and none is lost unless the roster
  exceeds 100 entries.
\<close>

theorem other_entries_kept:
  "mset (map unranked (filter (\<lambda>e. playerName e \<noteq> getPlayerName stored)
      (updateLeaderboard stored now streakData leaderboard))) \<subseteq>#
   mset (map unranked (filter (\<lambda>e. playerName e \<noteq> getPlayerName stored) leaderboard)) \<and>
   (\<forall>e \<in> set (updateLeaderboard stored now streakData leaderboard).
      playerName e \<noteq> getPlayerName stored \<longrightarrow>
      (\<exists>e0 \<in> set leaderboard. e = e0\<lparr>rank := rank e\<rparr>)) \<and>
   (length (upserted (getPlayerName stored) now streakData leaderboard) \<le> 100 \<longrightarrow>
      mset (map unranked (filter (\<lambda>e. playerName e \<noteq> getPlayerName stored)
        (updateLeaderboard stored now streakData leaderboard))) =
      mset (map unranked (filter (\<lambda>e. playerName e \<noteq> getPlayerName stored) leaderboard)))"
proof -
  let ?p = "getPlayerName stored"
  let ?pre = "upserted ?p now streakData leaderboard"
  let ?all = "ranked (array_sort compareEntries ?pre)"
  let ?Q = "\<lambda>e. playerName e \<noteq> ?p"
  let ?new = "updateLeaderboard stored now streakData leaderboard"
  have eq: "?new = take 100 ?all"
    by (rule updateLeaderboard_take)
  have "mset (filter ?Q (array_sort compareEntries ?pre)) = mset (filter ?Q ?pre)"
    by (simp add: mset_array_sort)
  then have "mset (map unranked (filter ?Q (array_sort compareEntries ?pre))) =
        mset (map unranked (filter ?Q leaderboard))"
    by (simp add: filter_upserted)
  then have all: "mset (map unranked (filter ?Q ?all)) = mset (map unranked (filter ?Q leaderboard))"
    by (simp only: filter_name_ranked)
  have "mset (take 100 ?all) \<subseteq># mset ?all"
    by (rule mset_take_subset)
  then have "mset (map unranked (filter ?Q (take 100 ?all))) \<subseteq># mset (map unranked (filter ?Q ?all))"
    by (simp add: image_mset_subseteq_mono multiset_filter_mono)
  with all have sub: "mset (map unranked (filter ?Q ?new)) \<subseteq>#
      mset (map unranked (filter ?Q leaderboard))"
    by (simp add: eq)
  have each: "\<exists>e0 \<in> set leaderboard. e = e0\<lparr>rank := rank e\<rparr>"
    if "e \<in> set ?new" and "playerName e \<noteq> ?p" for e
  proof -
    from that have "unranked e \<in># mset (map unranked (filter ?Q ?new))"
      by simp
    with sub have "unranked e \<in># mset (map unranked (filter ?Q leaderboard))"
      by (meson mset_subset_eqD)
    then obtain e0 where e0: "e0 \<in> set leaderboard" and "unranked e0 = unranked e"
      by auto
    from this(2) have "e = e0\<lparr>rank := rank e\<rparr>"
      by (rule unranked_eqD)
    with e0 show ?thesis ..
  qed
  have whole: "mset (map unranked (filter ?Q ?new)) = mset (map unranked (filter ?Q leaderboard))"
    if "length ?pre \<le> 100"
  proof -
    from that have "take 100 ?all = ?all"
      by (simp add: length_ranked length_array_sort)
    with all show ?thesis
      by (simp add: eq)
  qed
  from sub each whole show ?thesis
    by blast
qed

theorem other_entries_kept_witness:
  "updateLeaderboard (Some ''Study Pro'') ''now''
     (defaultData\<lparr>totalPoints := Fin 200, longestStreak := Fin 30, totalQuizzesPassed := Fin 21\<rparr>)
     (take 2 (addSampleData ''t'')) =
   [\<lparr>playerName = ''Study Pro'', LeaderboardEntry.totalPoints = Fin 200,
     LeaderboardEntry.longestStreak = Fin 30, LeaderboardEntry.totalQuizzesPassed = Fin 21,
     lastActive = ''now'', rank = 1\<rparr>,
    \<lparr>playerName = ''Quiz Master'', LeaderboardEntry.totalPoints = Fin 150,
     LeaderboardEntry.longestStreak = Fin 25, LeaderboardEntry.totalQuizzesPassed = Fin 20,
     lastActive = ''t'', rank = 2\<rparr>] \<and>
   (\<exists>e0 \<in> set (take 2 (addSampleData ''t'')).
      \<lparr>playerName = ''Quiz Master'', LeaderboardEntry.totalPoints = Fin 150,
       LeaderboardEntry.longestStreak = Fin 25, LeaderboardEntry.totalQuizzesPassed = Fin 20,
       lastActive = ''t'', rank = 2\<rparr> = e0\<lparr>rank := 2\<rparr>)"
proof -
  let ?sd = "defaultData\<lparr>totalPoints := Fin 200, longestStreak := Fin 30, totalQuizzesPassed := Fin 21\<rparr>"
  let ?lb = "take 2 (addSampleData ''t'')"
  let ?qm = "\<lparr>playerName = ''Quiz Master'', LeaderboardEntry.totalPoints = Fin 150,
       LeaderboardEntry.longestStreak = Fin 25, LeaderboardEntry.totalQuizzesPassed = Fin 20,
       lastActive = ''t'', rank = 2\<rparr>"
  have new: "updateLeaderboard (Some ''Study Pro'') ''now'' ?sd ?lb =
     [\<lparr>playerName = ''Study Pro'', LeaderboardEntry.totalPoints = Fin 200,
       LeaderboardEntry.longestStreak = Fin 30, LeaderboardEntry.totalQuizzesPassed = Fin 21,
       lastActive = ''now'', rank = 1\<rparr>, ?qm]"
    by (simp add: updateLeaderboard_take getPlayerName_def upserted_def array_sort_def
        compareEntries_def sort_compare_def ranked_def addSampleData_def defaultData_def
        round_double_exact number_order)
  have "?qm \<in> set (updateLeaderboard (Some ''Study Pro'') ''now'' ?sd ?lb)"
    and "playerName ?qm \<noteq> getPlayerName (Some ''Study Pro'')"
    by (simp_all add: new getPlayerName_def)
  with other_entries_kept [of "Some ''Study Pro''" "''now''" ?sd ?lb]
  have "\<exists>e0 \<in> set ?lb. ?qm = e0\<lparr>rank := rank ?qm\<rparr>"
    by blast
  with new show ?thesis
    by simp
qed

text \<open>
  C7, as amended. \<open>getPlayersAroundRank\<close> returns the entries at the indices from
  \<open>max(0, playerRank - range - 1)\<close> up to, not including, \<open>min(size, playerRank + range)\<close>
  when \<open>playerRank + range\<close> is not negative; when it is negative, \<open>slice\<close> counts that
  bound from the end, and the window ends before the index \<open>size + playerRank + range\<close>. On
  a roster of 5 entries, rank 1 and range 2 give the entries at the indices 0, 1, 2; rank
  0 and a range that is not negative give the first \<open>range\<close> entries.
\<close>

theorem window_around_rank:
  "getPlayersAroundRank playerRank range' leaderboard =
     index_window (max 0 (playerRank - range' - 1))
       (if playerRank + range' < 0 then int (length leaderboard) + (playerRank + range')
        else min (int (length leaderboard)) (playerRank + range'))
       leaderboard \<and>
   (length leaderboard = 5 \<longrightarrow>
      getPlayersAroundRank 1 2 leaderboard = [leaderboard ! 0, leaderboard ! 1, leaderboard ! 2]) \<and>
   (0 \<le> range' \<longrightarrow> getPlayersAroundRank 0 range' leaderboard = take (nat range') leaderboard)"
proof -
  have window: "getPlayersAroundRank t r leaderboard =
     index_window (max 0 (t - r - 1))
       (if t + r < 0 then int (length leaderboard) + (t + r)
        else min (int (length leaderboard)) (t + r))
       leaderboard" for t r
    unfolding getPlayersAroundRank_def Let_def
    by (subst array_slice_window) (simp_all add: min_def)
  have five: "getPlayersAroundRank 1 2 leaderboard =
      [leaderboard ! 0, leaderboard ! 1, leaderboard ! 2]" if "length leaderboard = 5"
  proof -
    have "[0..2::int] = [0, 1, 2]"
      by (simp add: upto.simps)
    with that show ?thesis
      by (simp add: window index_window_def)
  qed
  have unranked_player: "getPlayersAroundRank 0 r leaderboard = take (nat r) leaderboard"
    if "0 \<le> r" for r
    using that
    by (simp add: window index_window_take_drop min_def)
  from window five unranked_player show ?thesis
    by blast
qed

theorem window_around_rank_witness:
  "length (take 5 (addSampleData ''t'')) = 5 \<and>
   map playerName (getPlayersAroundRank 1 2 (take 5 (addSampleData ''t''))) =
     [''Quiz Master'', ''Study Pro'', ''Brain Trainer''] \<and>
   (0::int) \<le> 3 \<and>
   map playerName (getPlayersAroundRank 0 3 (addSampleData ''t'')) =
     [''Quiz Master'', ''Study Pro'', ''Brain Trainer'']"
proof -
  have len: "length (take 5 (addSampleData ''t'')) = 5"
    by (simp add: addSampleData_def)
  have r: "(0::int) \<le> 3"
    by simp
  from window_around_rank [of 0 3 "take 5 (addSampleData ''t'')"] len
  have "getPlayersAroundRank 1 2 (take 5 (addSampleData ''t'')) =
      [take 5 (addSampleData ''t'') ! 0, take 5 (addSampleData ''t'') ! 1,
       take 5 (addSampleData ''t'') ! 2]"
    by blast
  moreover from window_around_rank [of 0 3 "addSampleData ''t''"] r
  have "getPlayersAroundRank 0 3 (addSampleData ''t'') = take (nat 3) (addSampleData ''t'')"
    by blast
  ultimately show ?thesis
    by (simp add: addSampleData_def)
qed

text \<open>
  C7 as stated fails for a negative \<open>playerRank + range\<close>: on the first three sample
  entries, rank 0 and range -1 give the first two entries, where the window from
  \<open>max(0, 0)\<close> to \<open>min(3, -1)\<close> is empty.
\<close>

theorem window_around_rank_counterexample:
  "map playerName (getPlayersAroundRank 0 (- 1) (take 3 (addSampleData ''t''))) =
     [''Quiz Master'', ''Study Pro''] \<and>
   index_window (max 0 (0 - (- 1) - 1))
     (min (int (length (take 3 (addSampleData ''t'')))) (0 + (- 1)))
     (take 3 (addSampleData ''t'')) = []"
  by (simp add: getPlayersAroundRank_def array_slice_def addSampleData_def index_window_def)

end
